theory Spec2Isabelle
  imports Complex_Main "HOL-Library.Word"
begin

unbundle bit_operations_syntax

section \<open>MSESimilarityEvaluator: data model\<close>

text \<open>
  The evaluator of \<^verbatim>\<open>sentence_transformers/evaluation/MSESimilarityEvaluator.py\<close>.
  Python exceptions are values of \<open>py_error\<close>; a fallible step returns
  \<open>py_error + 'a\<close> with \<open>Inl\<close> for the raised exception.

  Numbers: the floating-point values of the source are idealised as reals (no rounding,
  no overflow, no infinities). The one non-real value the computation itself can
  produce, the NaN of a mean over an empty array, is kept as a value of its own.
  The 8-bit integer element types of quantised embeddings are \<open>8 word\<close>, read as signed
  (\<open>sint\<close>, numpy int8) or unsigned (\<open>unat\<close>, numpy uint8).
\<close>

datatype py_error = AssertionError | ValueError | TypeError | ModelError string

text \<open>
  The members of the enumeration \<^verbatim>\<open>SimilarityFunction\<close> that the source names. The
  attribute \<^verbatim>\<open>main_similarity\<close> is untyped at run time: it holds \<^verbatim>\<open>None\<close>, a member
  of the enumeration, or any other object (here: tagged by a string).
\<close>

datatype SimilarityFunction = COSINE | EUCLIDEAN | MANHATTAN | DOT_PRODUCT

datatype selector = PyNone | Member SimilarityFunction | Other string

datatype npfloat = Num real | NaN

text \<open>
  A two-dimensional numpy array as the model collaborator returns it: rows of float
  values, of int8 values or of uint8 values.
\<close>

datatype ndarray =
    FloatArr "real list list"
  | Int8Arr "8 word list list"
  | UInt8Arr "8 word list list"

record MSESimilarityEvaluator =
  sentences1 :: "string list"
  sentences2 :: "string list"
  scores :: "real list"
  write_csv :: bool
  precision :: "string option"
  main_similarity :: selector
  name :: string
  batch_size :: int
  show_progress_bar :: bool
  csv_file :: string
  csv_headers :: "string list"

text \<open>The keyword arguments of one \<^verbatim>\<open>model.encode\<close> request; \<open>None\<close>: not passed.\<close>

record encode_request =
  req_sentences :: "string list"
  req_batch_size :: int
  req_show_progress_bar :: bool
  req_convert_to_numpy :: bool
  req_precision :: "string option"
  req_normalize_embeddings :: "bool option"

type_synonym model = "encode_request \<Rightarrow> py_error + ndarray"

text \<open>
  The log files: a file is the list of the rows written to it, a row is a list of
  cells. A path that is not in the map is not an existing file. The output directory is
  taken to exist and to be writable, so that opening the log file succeeds.
\<close>

datatype csv_cell = Text string | IntCell int | FloatCell npfloat

type_synonym csv_row = "csv_cell list"

type_synonym filesystem = "string \<rightharpoonup> csv_row list"

section \<open>Construction\<close>

text \<open>
  \<^verbatim>\<open>__init__\<close>. The two \<^verbatim>\<open>assert\<close> statements raise AssertionError (assertions
  are taken to be enabled). \<^verbatim>\<open>logging.DEBUG\<close> is 10 and \<^verbatim>\<open>logging.INFO\<close> is 20;
  \<open>level\<close> is the effective level of the module's logger when the evaluator is
  constructed. The truth value of a string is that it is not empty.
\<close>

definition csv_file_name :: "string \<Rightarrow> string option \<Rightarrow> string" where
  "csv_file_name nm prec =
     ''MSE_similarity_evaluation''
     @ (if nm \<noteq> [] then ''_'' @ nm else [])
     @ (case prec of None \<Rightarrow> [] | Some p \<Rightarrow> if p \<noteq> [] then ''_'' @ p else [])
     @ ''_results.csv''"

definition init ::
  "string list \<Rightarrow> string list \<Rightarrow> real list \<Rightarrow> int \<Rightarrow> selector \<Rightarrow> string \<Rightarrow> bool option \<Rightarrow>
   bool \<Rightarrow> string option \<Rightarrow> int \<Rightarrow> py_error + MSESimilarityEvaluator" where
  "init s1 s2 sc bs sim nm spb wcsv prec level =
     (if length s1 \<noteq> length s2 then Inl AssertionError
      else if length s1 \<noteq> length sc then Inl AssertionError
      else Inr \<lparr> sentences1 = s1, sentences2 = s2, scores = sc, write_csv = wcsv,
                 precision = prec, main_similarity = sim, name = nm, batch_size = bs,
                 show_progress_bar =
                   (case spb of None \<Rightarrow> level = 20 \<or> level = 10 | Some b \<Rightarrow> b),
                 csv_file = csv_file_name nm prec,
                 csv_headers = [''epoch'', ''steps'', ''MSE_cosine'', ''MSE_euclidean'',
                                ''MSE_manhattan'', ''MSE_dot''] \<rparr>)"

section \<open>Library operations used by the evaluation call\<close>

definition bind_result :: "py_error + 'a \<Rightarrow> ('a \<Rightarrow> py_error + 'b) \<Rightarrow> py_error + 'b" where
  "bind_result r f = (case r of Inl e \<Rightarrow> Inl e | Inr v \<Rightarrow> f v)"

subsection \<open>numpy: element types, bit unpacking\<close>

text \<open>
  \<^verbatim>\<open>(a + 128).astype(np.uint8)\<close>. On an int8 array the sum is taken in a wider integer
  type (numpy 1.x promotes, since 128 is no int8 value) and lies in 0..255, so the cast
  is exact; on the 8-bit word it is the wrapping addition of 128. On a uint8 array the
  addition itself wraps. On a float array the cast truncates towards zero; numpy leaves
  the cast of a value outside 0..255 to the platform, the model reduces it modulo 256.
\<close>

definition trunc_real :: "real \<Rightarrow> int" where
  "trunc_real x = (if 0 \<le> x then \<lfloor>x\<rfloor> else \<lceil>x\<rceil>)"

fun add_128_astype_uint8 :: "ndarray \<Rightarrow> ndarray" where
  "add_128_astype_uint8 (Int8Arr a) = UInt8Arr (map (map (\<lambda>b. b + 128)) a)"
| "add_128_astype_uint8 (UInt8Arr a) = UInt8Arr (map (map (\<lambda>b. b + 128)) a)"
| "add_128_astype_uint8 (FloatArr a) =
     UInt8Arr (map (map (\<lambda>x. word_of_int (trunc_real (x + 128)))) a)"

text \<open>
  \<^verbatim>\<open>np.unpackbits(a, axis=1)\<close>: every byte of a row becomes its 8 bits, most
  significant first. numpy raises TypeError on an array that is not uint8.
\<close>

definition unpack_byte :: "8 word \<Rightarrow> 8 word list" where
  "unpack_byte b = map (\<lambda>i. if bit b (7 - i) then 1 else 0) [0..<8]"

fun unpackbits :: "ndarray \<Rightarrow> py_error + ndarray" where
  "unpackbits (UInt8Arr a) = Inr (UInt8Arr (map (\<lambda>row. concat (map unpack_byte row)) a))"
| "unpackbits (Int8Arr a) = Inl TypeError"
| "unpackbits (FloatArr a) = Inl TypeError"

text \<open>The values of an array as floats (what the paired distances of sklearn work on).\<close>

fun to_float :: "ndarray \<Rightarrow> real list list" where
  "to_float (FloatArr a) = a"
| "to_float (Int8Arr a) = map (map (\<lambda>b. real_of_int (sint b))) a"
| "to_float (UInt8Arr a) = map (map (\<lambda>b. real (unat b))) a"

text \<open>The number of rows of an array (\<^verbatim>\<open>shape[0]\<close>).\<close>

definition num_rows :: "ndarray \<Rightarrow> nat" where
  "num_rows a = length (to_float a)"

subsection \<open>sklearn: paired distances\<close>

text \<open>
  \<^verbatim>\<open>check_paired_arrays\<close>: both arrays need at least one row and one column and the
  same shape, else ValueError. (A numpy array is rectangular; the model checks it.)
\<close>

definition check_paired_arrays :: "real list list \<Rightarrow> real list list \<Rightarrow> bool" where
  "check_paired_arrays X Y =
     (case X of [] \<Rightarrow> False
      | x # _ \<Rightarrow> length x \<noteq> 0 \<and> length X = length Y
                 \<and> list_all (\<lambda>r. length r = length x) X
                 \<and> list_all (\<lambda>r. length r = length x) Y)"

definition row_norm :: "real list \<Rightarrow> real" where
  "row_norm x = sqrt (sum_list (map (\<lambda>v. v ^ 2) x))"

text \<open>\<^verbatim>\<open>normalize\<close>: a row is divided by its L2 norm, a zero row is left as it is.\<close>

definition normalize :: "real list \<Rightarrow> real list" where
  "normalize x = (let n = row_norm x in map (\<lambda>v. v / (if n = 0 then 1 else n)) x)"

definition cosine_distance :: "real list \<Rightarrow> real list \<Rightarrow> real" where
  "cosine_distance x y =
     0.5 * sum_list (map (\<lambda>v. v ^ 2) (map2 (-) (normalize x) (normalize y)))"

definition manhattan_distance :: "real list \<Rightarrow> real list \<Rightarrow> real" where
  "manhattan_distance x y = sum_list (map abs (map2 (-) x y))"

definition euclidean_distance :: "real list \<Rightarrow> real list \<Rightarrow> real" where
  "euclidean_distance x y = row_norm (map2 (-) x y)"

definition paired_cosine_distances :: "ndarray \<Rightarrow> ndarray \<Rightarrow> py_error + real list" where
  "paired_cosine_distances X Y =
     (if check_paired_arrays (to_float X) (to_float Y)
      then Inr (map2 cosine_distance (to_float X) (to_float Y)) else Inl ValueError)"

definition paired_manhattan_distances :: "ndarray \<Rightarrow> ndarray \<Rightarrow> py_error + real list" where
  "paired_manhattan_distances X Y =
     (if check_paired_arrays (to_float X) (to_float Y)
      then Inr (map2 manhattan_distance (to_float X) (to_float Y)) else Inl ValueError)"

definition paired_euclidean_distances :: "ndarray \<Rightarrow> ndarray \<Rightarrow> py_error + real list" where
  "paired_euclidean_distances X Y =
     (if check_paired_arrays (to_float X) (to_float Y)
      then Inr (map2 euclidean_distance (to_float X) (to_float Y)) else Inl ValueError)"

subsection \<open>numpy: dot product, broadcasting, mean\<close>

text \<open>
  \<^verbatim>\<open>np.dot\<close> of two rows works in the element type of the rows: on floats it is the
  real dot product; on two int8 rows, or two uint8 rows, the result is again an 8-bit
  integer, the sum of the products reduced modulo \<open>2 ^ 8\<close>; an int8 row and a uint8
  row are promoted to int16. A float row and an integer row are promoted to float.
\<close>

definition dot_real :: "real list \<Rightarrow> real list \<Rightarrow> real" where
  "dot_real x y = sum_list (map2 (*) x y)"

definition dot_word :: "'a::len word list \<Rightarrow> 'a word list \<Rightarrow> 'a word" where
  "dot_word x y = sum_list (map2 (*) x y)"

definition widen_signed :: "8 word list \<Rightarrow> 16 word list" where
  "widen_signed x = map (\<lambda>b. word_of_int (sint b)) x"

definition widen_unsigned :: "8 word list \<Rightarrow> 16 word list" where
  "widen_unsigned x = map (\<lambda>b. word_of_nat (unat b)) x"

text \<open>
  \<^verbatim>\<open>np.array([np.dot(emb1, emb2) for emb1, emb2 in zip(embeddings1, embeddings2)])\<close>,
  its values read as reals. (The rows have equal lengths where the call reaches this
  line: the paired distances before it have checked the shapes.)
\<close>

fun dot_products_of :: "ndarray \<Rightarrow> ndarray \<Rightarrow> real list" where
  "dot_products_of (Int8Arr a) (Int8Arr b) =
     map2 (\<lambda>x y. real_of_int (sint (dot_word x y))) a b"
| "dot_products_of (UInt8Arr a) (UInt8Arr b) =
     map2 (\<lambda>x y. real (unat (dot_word x y))) a b"
| "dot_products_of (Int8Arr a) (UInt8Arr b) =
     map2 (\<lambda>x y. real_of_int (sint (dot_word (widen_signed x) (widen_unsigned y)))) a b"
| "dot_products_of (UInt8Arr a) (Int8Arr b) =
     map2 (\<lambda>x y. real_of_int (sint (dot_word (widen_unsigned x) (widen_signed y)))) a b"
| "dot_products_of X Y = map2 dot_real (to_float X) (to_float Y)"

text \<open>
  \<^verbatim>\<open>metric - labels\<close> on two one-dimensional arrays: elementwise on equal lengths, an
  array of length 1 is broadcast, any other pair of lengths raises ValueError.
\<close>

definition np_subtract :: "real list \<Rightarrow> real list \<Rightarrow> py_error + real list" where
  "np_subtract xs ys =
     (if length xs = length ys then Inr (map2 (-) xs ys)
      else case xs of [x] \<Rightarrow> Inr (map (\<lambda>y. x - y) ys)
      | _ \<Rightarrow> (case ys of [y] \<Rightarrow> Inr (map (\<lambda>x. x - y) xs) | _ \<Rightarrow> Inl ValueError))"

text \<open>\<^verbatim>\<open>np.mean\<close>: NaN on an empty array.\<close>

definition np_mean :: "real list \<Rightarrow> npfloat" where
  "np_mean xs = (if xs = [] then NaN else Num (sum_list xs / real (length xs)))"

text \<open>\<^verbatim>\<open>np.mean((metric - labels) ** 2)\<close>\<close>

definition mse :: "real list \<Rightarrow> real list \<Rightarrow> py_error + npfloat" where
  "mse metric labels =
     bind_result (np_subtract metric labels) (\<lambda>d. Inr (np_mean (map (\<lambda>v. v ^ 2) d)))"

subsection \<open>Python: min, os.path.join\<close>

text \<open>A comparison with NaN is false.\<close>

fun py_lt :: "npfloat \<Rightarrow> npfloat \<Rightarrow> bool" where
  "py_lt (Num a) (Num b) = (a < b)"
| "py_lt _ _ = False"

text \<open>\<^verbatim>\<open>min(a, b, c, d)\<close>: the first argument, replaced by each later one that is less.\<close>

definition py_min :: "npfloat \<Rightarrow> npfloat list \<Rightarrow> npfloat" where
  "py_min a rest = foldl (\<lambda>m x. if py_lt x m then x else m) a rest"

text \<open>\<^verbatim>\<open>os.path.join(a, b)\<close> (posix).\<close>

definition os_path_join :: "string \<Rightarrow> string \<Rightarrow> string" where
  "os_path_join a b =
     (if take 1 b = ''/'' then b
      else if a = [] \<or> last a = CHR ''/'' then a @ b
      else a @ ''/'' @ b)"

section \<open>The evaluation call\<close>

text \<open>
  The embeddings (source lines 106 to 142): two requests to the model, an error of the
  model propagates; then the corrections for the packed precisions.
\<close>

definition encode_request_for ::
  "MSESimilarityEvaluator \<Rightarrow> string list \<Rightarrow> encode_request" where
  "encode_request_for self sentences =
     \<lparr> req_sentences = sentences, req_batch_size = batch_size self,
       req_show_progress_bar = show_progress_bar self, req_convert_to_numpy = True,
       req_precision = precision self,
       req_normalize_embeddings =
         (case precision self of None \<Rightarrow> None | Some p \<Rightarrow> Some (p \<noteq> [])) \<rparr>"

definition embeddings :: "MSESimilarityEvaluator \<Rightarrow> model \<Rightarrow> py_error + ndarray \<times> ndarray" where
  "embeddings self m =
     bind_result (m (encode_request_for self (sentences1 self))) (\<lambda>e1.
     bind_result (m (encode_request_for self (sentences2 self))) (\<lambda>e2.
       (let (e1', e2') =
              (if precision self = Some ''binary''
               then (add_128_astype_uint8 e1, add_128_astype_uint8 e2) else (e1, e2))
        in if precision self = Some ''ubinary'' \<or> precision self = Some ''binary''
           then bind_result (unpackbits e1') (\<lambda>u1.
                bind_result (unpackbits e2') (\<lambda>u2. Inr (u1, u2)))
           else Inr (e1', e2'))))"

text \<open>The four metric arrays (source lines 146 to 149).\<close>

record metrics =
  cosine_scores :: "real list"
  manhattan_distances :: "real list"
  euclidean_distances :: "real list"
  dot_products :: "real list"

definition similarity_metrics :: "ndarray \<Rightarrow> ndarray \<Rightarrow> py_error + metrics" where
  "similarity_metrics embeddings1 embeddings2 =
     bind_result (paired_cosine_distances embeddings1 embeddings2) (\<lambda>cd.
     bind_result (paired_manhattan_distances embeddings1 embeddings2) (\<lambda>md.
     bind_result (paired_euclidean_distances embeddings1 embeddings2) (\<lambda>ed.
       Inr \<lparr> cosine_scores = map (\<lambda>d. 1 - d) cd,
             manhattan_distances = map uminus md,
             euclidean_distances = map uminus ed,
             dot_products = dot_products_of embeddings1 embeddings2 \<rparr>)))"

text \<open>The four MSE values (source lines 151 to 154).\<close>

record mse_values =
  eval_mse_cosine :: npfloat
  eval_mse_manhattan :: npfloat
  eval_mse_euclidean :: npfloat
  eval_mse_dot :: npfloat

definition eval_mse :: "metrics \<Rightarrow> real list \<Rightarrow> py_error + mse_values" where
  "eval_mse ms labels =
     bind_result (mse (cosine_scores ms) labels) (\<lambda>c.
     bind_result (mse (manhattan_distances ms) labels) (\<lambda>mh.
     bind_result (mse (euclidean_distances ms) labels) (\<lambda>eu.
     bind_result (mse (dot_products ms) labels) (\<lambda>d.
       Inr \<lparr> eval_mse_cosine = c, eval_mse_manhattan = mh,
             eval_mse_euclidean = eu, eval_mse_dot = d \<rparr>))))"

text \<open>The metric computation of a call, from the model to the four MSE values.\<close>

definition compute_mse :: "MSESimilarityEvaluator \<Rightarrow> model \<Rightarrow> py_error + mse_values" where
  "compute_mse self m =
     bind_result (embeddings self m) (\<lambda>(embeddings1, embeddings2).
     bind_result (similarity_metrics embeddings1 embeddings2) (\<lambda>ms.
       eval_mse ms (scores self)))"

text \<open>The log file (source lines 169 to 186).\<close>

definition data_row :: "int \<Rightarrow> int \<Rightarrow> mse_values \<Rightarrow> csv_row" where
  "data_row epoch steps v =
     [IntCell epoch, IntCell steps, FloatCell (eval_mse_cosine v),
      FloatCell (eval_mse_euclidean v), FloatCell (eval_mse_manhattan v),
      FloatCell (eval_mse_dot v)]"

definition write_results ::
  "MSESimilarityEvaluator \<Rightarrow> string option \<Rightarrow> int \<Rightarrow> int \<Rightarrow> mse_values \<Rightarrow> filesystem \<Rightarrow>
   filesystem" where
  "write_results self output_path epoch steps v fs =
     (case output_path of
        None \<Rightarrow> fs
      | Some dir \<Rightarrow>
          if write_csv self then
            (let csv_path = os_path_join dir (csv_file self) in
             case fs csv_path of
               Some rows \<Rightarrow> fs(csv_path \<mapsto> rows @ [data_row epoch steps v])
             | None \<Rightarrow>
                 fs(csv_path \<mapsto> [map Text (csv_headers self), data_row epoch steps v]))
          else fs)"

text \<open>The returned score (source lines 188 to 201).\<close>

definition select_score :: "selector \<Rightarrow> mse_values \<Rightarrow> py_error + npfloat" where
  "select_score sim v =
     (if sim = Member COSINE then Inr (eval_mse_cosine v)
      else if sim = Member EUCLIDEAN then Inr (eval_mse_euclidean v)
      else if sim = Member MANHATTAN then Inr (eval_mse_manhattan v)
      else if sim = Member DOT_PRODUCT then Inr (eval_mse_dot v)
      else if sim = PyNone then
        Inr (py_min (eval_mse_cosine v)
               [eval_mse_manhattan v, eval_mse_euclidean v, eval_mse_dot v])
      else Inl ValueError)"

text \<open>
  \<^verbatim>\<open>__call__\<close>: the outcome (the score, or the exception raised), the evaluator
  object after the call and the log files after the call. Informational logging is
  left out, and the model is taken not to change the sentence lists it is handed.
\<close>

definition call ::
  "MSESimilarityEvaluator \<Rightarrow> model \<Rightarrow> string option \<Rightarrow> int \<Rightarrow> int \<Rightarrow> filesystem \<Rightarrow>
   (py_error + npfloat) \<times> MSESimilarityEvaluator \<times> filesystem" where
  "call self m output_path epoch steps fs =
     (case compute_mse self m of
        Inl e \<Rightarrow> (Inl e, self, fs)
      | Inr v \<Rightarrow>
          (select_score (main_similarity self) v, self,
           write_results self output_path epoch steps v fs))"

section \<open>The mean squared error, as the specification words it\<close>

text \<open>
  The mean over \<open>i\<close> of \<open>(metric[i] - scores[i])\<^sup>2\<close>, over the indices of the gold
  scores. It is compared below with what the source computes (\<open>mse\<close>).
\<close>

definition mean_squared_error :: "real list \<Rightarrow> real list \<Rightarrow> real" where
  "mean_squared_error metric labels =
     (\<Sum>i<length labels. (metric ! i - labels ! i) ^ 2) / real (length labels)"

section \<open>Concrete inputs\<close>

text \<open>
  A dataset of two pairs and a model that answers with four-dimensional float
  embeddings; the evaluator is the one the constructor builds for it.
\<close>

definition example_evaluator :: "selector \<Rightarrow> MSESimilarityEvaluator" where
  "example_evaluator sim =
     \<lparr> sentences1 = [''a'', ''b''], sentences2 = [''c'', ''d''], scores = [1, 0],
       write_csv = True, precision = None, main_similarity = sim, name = [],
       batch_size = 16, show_progress_bar = False,
       csv_file = ''MSE_similarity_evaluation_results.csv'',
       csv_headers = [''epoch'', ''steps'', ''MSE_cosine'', ''MSE_euclidean'',
                      ''MSE_manhattan'', ''MSE_dot''] \<rparr>"

definition example_model :: model where
  "example_model req =
     (if req_sentences req = [''a'', ''b'']
      then Inr (FloatArr [[2, 0, 0, 0], [1, 1, 1, 1]])
      else Inr (FloatArr [[2, 0, 0, 0], [0, 0, 0, 0]]))"

definition example_mse :: mse_values where
  "example_mse =
     \<lparr> eval_mse_cosine = Num (1 / 8), eval_mse_manhattan = Num (17 / 2),
       eval_mse_euclidean = Num (5 / 2), eval_mse_dot = Num (9 / 2) \<rparr>"

text \<open>
  The same dataset under the precision \<open>binary\<close>, with a model that answers with one
  packed signed byte per sentence: \<open>133\<close> is the int8 value \<open>-123\<close>, \<open>128\<close> is
  \<open>-128\<close>, \<open>255\<close> is \<open>-1\<close>.
\<close>

definition binary_evaluator :: MSESimilarityEvaluator where
  "binary_evaluator =
     \<lparr> sentences1 = [''a'', ''b''], sentences2 = [''c'', ''d''], scores = [1, 0],
       write_csv = True, precision = Some ''binary'', main_similarity = PyNone, name = [],
       batch_size = 16, show_progress_bar = False,
       csv_file = ''MSE_similarity_evaluation_binary_results.csv'',
       csv_headers = [''epoch'', ''steps'', ''MSE_cosine'', ''MSE_euclidean'',
                      ''MSE_manhattan'', ''MSE_dot''] \<rparr>"

definition binary_model :: model where
  "binary_model req =
     (if req_sentences req = [''a'', ''b'']
      then Inr (Int8Arr [[133], [255]])
      else Inr (Int8Arr [[128], [133]]))"

text \<open>
  A dataset of one pair under the precision \<open>uint8\<close>, with a model that answers with
  the one-dimensional uint8 embedding \<open>[16]\<close> for every sentence.
\<close>

definition uint8_evaluator :: MSESimilarityEvaluator where
  "uint8_evaluator =
     \<lparr> sentences1 = [''a''], sentences2 = [''a''], scores = [1],
       write_csv = True, precision = Some ''uint8'', main_similarity = PyNone, name = [],
       batch_size = 16, show_progress_bar = False,
       csv_file = ''MSE_similarity_evaluation_uint8_results.csv'',
       csv_headers = [''epoch'', ''steps'', ''MSE_cosine'', ''MSE_euclidean'',
                      ''MSE_manhattan'', ''MSE_dot''] \<rparr>"

definition uint8_model :: model where
  "uint8_model req = Inr (UInt8Arr (map (\<lambda>s. [16]) (req_sentences req)))"

text \<open>
  The empty dataset, with a model that answers with one float row per sentence, hence
  with an array of no rows.
\<close>

definition empty_evaluator :: MSESimilarityEvaluator where
  "empty_evaluator =
     \<lparr> sentences1 = [], sentences2 = [], scores = [],
       write_csv = True, precision = None, main_similarity = PyNone, name = [],
       batch_size = 16, show_progress_bar = False,
       csv_file = ''MSE_similarity_evaluation_results.csv'',
       csv_headers = [''epoch'', ''steps'', ''MSE_cosine'', ''MSE_euclidean'',
                      ''MSE_manhattan'', ''MSE_dot''] \<rparr>"

definition row_per_sentence_model :: model where
  "row_per_sentence_model req = Inr (FloatArr (map (\<lambda>s. [1, 0]) (req_sentences req)))"

section \<open>Basic facts\<close>

lemma bind_result_simps [simp]:
  "bind_result (Inl e) f = Inl e" "bind_result (Inr v) f = f v"
  by (simp_all add: bind_result_def)

lemma example_init:
  "init [''a'', ''b''] [''c'', ''d''] [1, 0] 16 sim [] (Some False) True None 30
     = Inr (example_evaluator sim)"
  by (simp add: init_def example_evaluator_def csv_file_name_def)

lemma example_embeddings:
  "embeddings (example_evaluator sim) example_model =
     Inr (FloatArr [[2, 0, 0, 0], [1, 1, 1, 1]], FloatArr [[2, 0, 0, 0], [0, 0, 0, 0]])"
  by (simp add: embeddings_def example_evaluator_def example_model_def encode_request_for_def)

lemma example_metrics:
  "similarity_metrics (FloatArr [[2, 0, 0, 0], [1, 1, 1, 1]])
       (FloatArr [[2, 0, 0, 0], [0, 0, 0, 0]]) =
     Inr \<lparr> cosine_scores = [1, 1 / 2], manhattan_distances = [0, - 4],
           euclidean_distances = [0, - 2], dot_products = [4, 0] \<rparr>"
  by (simp add: similarity_metrics_def paired_cosine_distances_def
      paired_manhattan_distances_def paired_euclidean_distances_def check_paired_arrays_def
      cosine_distance_def manhattan_distance_def euclidean_distance_def normalize_def
      row_norm_def dot_real_def power2_eq_square)

lemma example_compute_mse:
  "compute_mse (example_evaluator sim) example_model = Inr example_mse"
  by (simp add: compute_mse_def example_embeddings example_metrics)
     (simp add: eval_mse_def mse_def np_subtract_def np_mean_def example_mse_def
       example_evaluator_def power2_eq_square)

lemma py_min_Num:
  "py_min (Num a) [Num b, Num c, Num d] = Num (Min {a, b, c, d})"
  by (simp add: py_min_def min_def)

lemma call_fs:
  "compute_mse self m = Inr v \<Longrightarrow>
   snd (snd (call self m output_path epoch steps fs)) = write_results self output_path epoch steps v fs"
  by (simp add: call_def)

lemma write_results_Some:
  "write_csv self \<Longrightarrow>
   write_results self (Some dir) epoch steps v fs =
     fs(os_path_join dir (csv_file self) \<mapsto>
         (case fs (os_path_join dir (csv_file self)) of
            None \<Rightarrow> [map Text (csv_headers self)] | Some rows \<Rightarrow> rows)
         @ [data_row epoch steps v])"
  by (simp add: write_results_def Let_def split: option.splits)

lemma unat_add_128: "unat (b + 128 :: 8 word) = nat (sint b + 128)"
proof -
  have s: "sint b + 128 = (uint b + 128) mod 256"
    by (simp add: sint_uint signed_take_bit_eq_take_bit_shift take_bit_eq_mod)
  have "unat (b + 128) = (unat b + 128) mod 256"
    by (simp add: unat_word_ariths)
  also have "\<dots> = nat ((uint b + 128) mod 256)"
    by (simp add: nat_mod_distrib nat_add_distrib)
  finally show ?thesis by (simp add: s)
qed

lemma unpack_byte_value: "(\<Sum>i<8. unat (unpack_byte b ! i) * 2 ^ (7 - i)) = unat b"
proof -
  have "horner_sum of_bool 2 (map (bit (unat b)) [0..<8]) = take_bit 8 (unat b)"
    by (rule horner_sum_bit_eq_take_bit)
  moreover have "take_bit 8 (unat b) = unat b"
    by (simp add: take_bit_nat_eq_self_iff unsigned_less[where 'b=8, simplified])
  moreover have "[0..<8] = [0,1,2,3,4,5,6,7::nat]"
    by (simp add: upt_conv_Cons)
  moreover have "{..<8::nat} = {0,1,2,3,4,5,6,7}" by auto
  moreover have "unat (if c then 1 else 0 :: 8 word) = of_bool c" for c
    by simp
  ultimately show ?thesis
    by (simp add: unpack_byte_def bit_unsigned_iff split del: if_split)
qed


lemma length_unpack_byte: "length (unpack_byte b) = 8"
  by (simp add: unpack_byte_def)

lemma set_unpack_byte: "set (unpack_byte b) \<subseteq> {0, 1}"
  by (auto simp: unpack_byte_def)

lemma length_concat_unpack: "length (concat (map unpack_byte row)) = 8 * length row"
  by (induction row) (simp_all add: length_unpack_byte)

lemma embeddings_binary:
  assumes "m (encode_request_for self (sentences1 self)) = Inr (Int8Arr a1)"
    and "m (encode_request_for self (sentences2 self)) = Inr (Int8Arr a2)"
    and "precision self = Some ''binary''"
  shows "embeddings self m =
           Inr (UInt8Arr (map (\<lambda>row. concat (map (\<lambda>b. unpack_byte (b + 128)) row)) a1),
                UInt8Arr (map (\<lambda>row. concat (map (\<lambda>b. unpack_byte (b + 128)) row)) a2))"
  using assms by (simp add: embeddings_def comp_def)

lemma embeddings_ubinary:
  assumes "m (encode_request_for self (sentences1 self)) = Inr (UInt8Arr a1)"
    and "m (encode_request_for self (sentences2 self)) = Inr (UInt8Arr a2)"
    and "precision self = Some ''ubinary''"
  shows "embeddings self m =
           Inr (UInt8Arr (map (\<lambda>row. concat (map unpack_byte row)) a1),
                UInt8Arr (map (\<lambda>row. concat (map unpack_byte row)) a2))"
  using assms by (simp add: embeddings_def)

lemma compute_mse_embeddings:
  "embeddings self m = Inr (u1, u2) \<Longrightarrow>
   compute_mse self m =
     bind_result (similarity_metrics u1 u2) (\<lambda>ms. eval_mse ms (scores self))"
  by (simp add: compute_mse_def)

lemma sum_list_map2_nth:
  fixes f :: "real \<Rightarrow> real \<Rightarrow> real"
  assumes "length xs = length ys"
  shows "sum_list (map2 f xs ys) = (\<Sum>i<length ys. f (xs ! i) (ys ! i))"
proof -
  have "sum_list (map2 f xs ys) = (\<Sum>i = 0..<length (map2 f xs ys). map2 f xs ys ! i)"
    by (rule sum_list_sum_nth)
  also have "\<dots> = (\<Sum>i<length ys. f (xs ! i) (ys ! i))"
    using assms by (intro sum.cong) (auto simp: lessThan_atLeast0)
  finally show ?thesis .
qed

lemma mse_equal_lengths:
  assumes "length metric = length labels" and "labels \<noteq> []"
  shows "mse metric labels =
           Inr (Num ((\<Sum>i<length labels. (metric ! i - labels ! i) ^ 2) / real (length labels)))"
proof -
  have "sum_list (map (\<lambda>v. v ^ 2) (map2 (-) metric labels))
          = sum_list (map2 (\<lambda>x y. (x - y) ^ 2) metric labels)"
    by (simp add: map_zip_map2 comp_def case_prod_unfold)
  also have "\<dots> = (\<Sum>i<length labels. (metric ! i - labels ! i) ^ 2)"
    using assms(1) by (rule sum_list_map2_nth)
  finally show ?thesis
    using assms by (auto simp: mse_def np_subtract_def np_mean_def)
qed

lemma check_paired_arrays_lengths:
  "check_paired_arrays X Y \<Longrightarrow> X \<noteq> [] \<and> length Y = length X"
  by (auto simp: check_paired_arrays_def split: list.splits)

lemma length_dot_products_of:
  "length (to_float X) = length (to_float Y) \<Longrightarrow>
   length (dot_products_of X Y) = length (to_float X)"
  by (cases X; cases Y) simp_all

lemma similarity_metrics_lengths:
  assumes "similarity_metrics e1 e2 = Inr ms"
  shows "to_float e1 \<noteq> []"
    and "length (cosine_scores ms) = length (to_float e1)"
    and "length (manhattan_distances ms) = length (to_float e1)"
    and "length (euclidean_distances ms) = length (to_float e1)"
    and "length (dot_products ms) = length (to_float e1)"
proof -
  from assms have c: "check_paired_arrays (to_float e1) (to_float e2)"
    by (auto simp: similarity_metrics_def paired_cosine_distances_def split: if_splits)
  from check_paired_arrays_lengths [OF c] have n: "to_float e1 \<noteq> []"
    and l: "length (to_float e2) = length (to_float e1)" by simp_all
  from c assms have ms: "ms = \<lparr> cosine_scores = map (\<lambda>d. 1 - d) (map2 cosine_distance (to_float e1) (to_float e2)),
             manhattan_distances = map uminus (map2 manhattan_distance (to_float e1) (to_float e2)),
             euclidean_distances = map uminus (map2 euclidean_distance (to_float e1) (to_float e2)),
             dot_products = dot_products_of e1 e2 \<rparr>"
    by (simp add: similarity_metrics_def paired_cosine_distances_def
        paired_manhattan_distances_def paired_euclidean_distances_def)
  show "to_float e1 \<noteq> []" by (rule n)
  show "length (cosine_scores ms) = length (to_float e1)" by (simp add: ms l)
  show "length (manhattan_distances ms) = length (to_float e1)" by (simp add: ms l)
  show "length (euclidean_distances ms) = length (to_float e1)" by (simp add: ms l)
  show "length (dot_products ms) = length (to_float e1)"
    by (simp add: ms l length_dot_products_of)
qed

lemma mean_squared_error_nonneg: "0 \<le> mean_squared_error metric labels"
  by (simp add: mean_squared_error_def sum_nonneg)

lemma unpackbits_num_rows:
  "unpackbits a = Inr u \<Longrightarrow> num_rows u = num_rows a"
  by (cases a) (auto simp: num_rows_def)

lemma add_128_num_rows: "num_rows (add_128_astype_uint8 a) = num_rows a"
  by (cases a) (simp_all add: num_rows_def)

lemma embeddings_num_rows:
  assumes "embeddings self m = Inr (u1, u2)"
    and "m (encode_request_for self (sentences1 self)) = Inr e1"
  shows "num_rows u1 = num_rows e1"
  using assms
  by (auto simp: embeddings_def bind_result_def Let_def unpackbits_num_rows add_128_num_rows
      split: sum.splits if_splits)

lemma similarity_metrics_no_rows:
  "num_rows u1 = 0 \<Longrightarrow> similarity_metrics u1 u2 = Inl ValueError"
  by (simp add: similarity_metrics_def paired_cosine_distances_def check_paired_arrays_def
      num_rows_def)

text \<open>
  The metric arrays index by index: the cosine score is one minus the cosine distance of
  the two rows, the Manhattan and Euclidean entries are the negated distances, so that a
  larger distance gives a smaller (or equal) entry; on float arrays the dot entry is the
  dot product of the two rows.
\<close>

lemma similarity_metrics_nth:
  assumes "similarity_metrics e1 e2 = Inr ms" and "i < num_rows e1"
  shows "cosine_scores ms ! i = 1 - cosine_distance (to_float e1 ! i) (to_float e2 ! i)
       \<and> manhattan_distances ms ! i = - manhattan_distance (to_float e1 ! i) (to_float e2 ! i)
       \<and> euclidean_distances ms ! i = - euclidean_distance (to_float e1 ! i) (to_float e2 ! i)
       \<and> (e1 = FloatArr a \<and> e2 = FloatArr b \<longrightarrow> dot_products ms ! i = dot_real (a ! i) (b ! i))
       \<and> (j < num_rows e1 \<and>
            manhattan_distance (to_float e1 ! i) (to_float e2 ! i)
              \<le> manhattan_distance (to_float e1 ! j) (to_float e2 ! j) \<longrightarrow>
            manhattan_distances ms ! j \<le> manhattan_distances ms ! i)
       \<and> (j < num_rows e1 \<and>
            euclidean_distance (to_float e1 ! i) (to_float e2 ! i)
              \<le> euclidean_distance (to_float e1 ! j) (to_float e2 ! j) \<longrightarrow>
            euclidean_distances ms ! j \<le> euclidean_distances ms ! i)"
proof -
  from assms have c: "check_paired_arrays (to_float e1) (to_float e2)"
    by (auto simp: similarity_metrics_def paired_cosine_distances_def split: if_splits)
  from check_paired_arrays_lengths [OF c] have
    l: "length (to_float e2) = length (to_float e1)" by simp
  from c assms have ms: "ms = \<lparr> cosine_scores = map (\<lambda>d. 1 - d) (map2 cosine_distance (to_float e1) (to_float e2)),
             manhattan_distances = map uminus (map2 manhattan_distance (to_float e1) (to_float e2)),
             euclidean_distances = map uminus (map2 euclidean_distance (to_float e1) (to_float e2)),
             dot_products = dot_products_of e1 e2 \<rparr>"
    by (simp add: similarity_metrics_def paired_cosine_distances_def
        paired_manhattan_distances_def paired_euclidean_distances_def)
  from assms(2) l show ?thesis
    by (auto simp: ms num_rows_def)
qed

section \<open>The returned score\<close>

text \<open>
  Claim C1. Whenever the metric computation of a call completes with the four MSE
  values \<open>v\<close>, the call returns the cosine, Euclidean, Manhattan or dot-product MSE
  when the selector is that member of \<open>SimilarityFunction\<close>; with the selector
  \<open>None\<close> it returns Python's \<open>min\<close> of the four values, which for four numbers is
  their least; with any other selector it raises ValueError.
\<close>

theorem call_returns_selected_mse:
  assumes "compute_mse self m = Inr v"
  shows "(main_similarity self = Member COSINE \<longrightarrow>
            fst (call self m output_path epoch steps fs) = Inr (eval_mse_cosine v))
       \<and> (main_similarity self = Member EUCLIDEAN \<longrightarrow>
            fst (call self m output_path epoch steps fs) = Inr (eval_mse_euclidean v))
       \<and> (main_similarity self = Member MANHATTAN \<longrightarrow>
            fst (call self m output_path epoch steps fs) = Inr (eval_mse_manhattan v))
       \<and> (main_similarity self = Member DOT_PRODUCT \<longrightarrow>
            fst (call self m output_path epoch steps fs) = Inr (eval_mse_dot v))
       \<and> (main_similarity self = PyNone \<longrightarrow>
            fst (call self m output_path epoch steps fs)
              = Inr (py_min (eval_mse_cosine v)
                       [eval_mse_manhattan v, eval_mse_euclidean v, eval_mse_dot v]))
       \<and> (main_similarity self = PyNone \<and>
            eval_mse_cosine v = Num c \<and> eval_mse_manhattan v = Num mh \<and>
            eval_mse_euclidean v = Num eu \<and> eval_mse_dot v = Num d \<longrightarrow>
            fst (call self m output_path epoch steps fs) = Inr (Num (Min {c, mh, eu, d})))
       \<and> (\<forall>x. main_similarity self = Other x \<longrightarrow>
            fst (call self m output_path epoch steps fs) = Inl ValueError)"
  using assms by (auto simp: call_def select_score_def py_min_Num)

theorem call_returns_selected_mse_witness:
  "fst (call (example_evaluator (Member COSINE)) example_model None 0 0 Map.empty)
     = Inr (Num (1 / 8))
   \<and> fst (call (example_evaluator (Member EUCLIDEAN)) example_model None 0 0 Map.empty)
     = Inr (Num (5 / 2))
   \<and> fst (call (example_evaluator (Member MANHATTAN)) example_model None 0 0 Map.empty)
     = Inr (Num (17 / 2))
   \<and> fst (call (example_evaluator (Member DOT_PRODUCT)) example_model None 0 0 Map.empty)
     = Inr (Num (9 / 2))
   \<and> fst (call (example_evaluator PyNone) example_model None 0 0 Map.empty)
     = Inr (Num (1 / 8))
   \<and> fst (call (example_evaluator (Other ''cosine'')) example_model None 0 0 Map.empty)
     = Inl ValueError"
proof -
  note sel = call_returns_selected_mse [OF example_compute_mse, where output_path = None
      and epoch = 0 and steps = 0 and fs = Map.empty and c = "1 / 8" and mh = "17 / 2"
      and eu = "5 / 2" and d = "9 / 2"]
  have sim: "main_similarity (example_evaluator s) = s" for s
    by (simp add: example_evaluator_def)
  have "Min {1 / 8, 17 / 2, 5 / 2, 9 / (2::real)} = 1 / 8" by simp
  with sel [of "Member COSINE"] sel [of "Member EUCLIDEAN"] sel [of "Member MANHATTAN"]
    sel [of "Member DOT_PRODUCT"] sel [of PyNone] sel [of "Other ''cosine''"]
  show ?thesis
    by (simp add: sim example_mse_def py_min_def)
qed

section \<open>Construction\<close>

text \<open>
  Claim C5. If the lengths of \<open>sentences1\<close>, \<open>sentences2\<close> and \<open>scores\<close> are not all
  equal, the constructor raises AssertionError and yields no evaluator, so that no
  evaluation call can follow; if the three lengths are equal, it yields an evaluator
  that holds the three sequences.
\<close>

theorem init_validates_lengths:
  "(length s1 = length s2 \<and> length s1 = length sc \<longrightarrow>
      (\<exists>ev. init s1 s2 sc bs sim nm spb wcsv prec level = Inr ev
            \<and> sentences1 ev = s1 \<and> sentences2 ev = s2 \<and> scores ev = sc))
   \<and> (\<not> (length s1 = length s2 \<and> length s1 = length sc) \<longrightarrow>
      init s1 s2 sc bs sim nm spb wcsv prec level = Inl AssertionError)"
  by (simp add: init_def)

theorem init_validates_lengths_witness:
  "init [''a'', ''b'', ''c''] [''d'', ''e'', ''f''] [1, 0] 16 PyNone [] (Some False) True None 30
     = Inl AssertionError
   \<and> (\<exists>ev. init [''a'', ''b''] [''c'', ''d''] [1, 0] 16 PyNone [] (Some False) True None 30
            = Inr ev
          \<and> sentences1 ev = [''a'', ''b''] \<and> sentences2 ev = [''c'', ''d'']
          \<and> scores ev = [1, 0])"
  using init_validates_lengths [of "[''a'', ''b'', ''c'']" "[''d'', ''e'', ''f'']" "[1, 0]"
      16 PyNone "[]" "Some False" True None 30]
    init_validates_lengths [of "[''a'', ''b'']" "[''c'', ''d'']" "[1, 0]"
      16 PyNone "[]" "Some False" True None 30]
  by simp

section \<open>The name of the log file\<close>

text \<open>
  Claim C7, as stated, fails: the name \<open>a_int8\<close> without a precision and the name
  \<open>a\<close> with the precision \<open>int8\<close> are two configurations that differ in name and
  in precision, and both derive the file name
  \<open>MSE_similarity_evaluation_a_int8_results.csv\<close>.
\<close>

theorem csv_file_name_collision:
  "map_sum id csv_file (init [] [] [] 16 PyNone ''a_int8'' (Some False) True None 30)
     = Inr ''MSE_similarity_evaluation_a_int8_results.csv''
   \<and> map_sum id csv_file (init [] [] [] 16 PyNone ''a'' (Some False) True (Some ''int8'') 30)
     = Inr ''MSE_similarity_evaluation_a_int8_results.csv''"
  by (simp add: init_def csv_file_name_def)

text \<open>
  Claim C7, amended. The file name of a constructed evaluator is
  \<open>MSE_similarity_evaluation\<close>, then an underscore and the name when the name is not
  empty, then an underscore and the precision when a precision is set and not empty,
  then \<open>_results.csv\<close>. Two configurations with the same precision and different
  names derive different file names, and so do two configurations with the same name
  and different precisions (each unset or not empty); the same configuration derives
  the same file name, the file name being a function of name and precision.
\<close>

theorem csv_file_name_derivation:
  "(init s1 s2 sc bs sim nm spb wcsv prec level = Inr ev \<longrightarrow>
      csv_file ev = csv_file_name nm prec)
   \<and> csv_file_name nm prec =
        ''MSE_similarity_evaluation''
        @ (if nm = [] then [] else ''_'' @ nm)
        @ (if prec = None \<or> prec = Some [] then [] else ''_'' @ the prec)
        @ ''_results.csv''
   \<and> (csv_file_name nm prec = csv_file_name nm' prec \<longrightarrow> nm = nm')
   \<and> (prec \<noteq> Some [] \<and> prec' \<noteq> Some [] \<and> csv_file_name nm prec = csv_file_name nm prec'
        \<longrightarrow> prec = prec')"
  by (auto simp: init_def csv_file_name_def split: if_splits option.splits)

theorem csv_file_name_derivation_witness:
  "csv_file (example_evaluator PyNone) = csv_file_name [] None
   \<and> csv_file_name [] None = ''MSE_similarity_evaluation_results.csv''
   \<and> csv_file_name ''sts'' None \<noteq> csv_file_name [] None
   \<and> csv_file_name [] (Some ''int8'') \<noteq> csv_file_name [] None"
proof -
  note d1 = csv_file_name_derivation [of "[''a'', ''b'']" "[''c'', ''d'']" "[1, 0]" 16 PyNone
      "[]" "Some False" True None 30 "example_evaluator PyNone" "''sts''" "Some ''int8''"]
  note d2 = csv_file_name_derivation [of "[]" "[]" "[]" 16 PyNone
      "''sts''" "Some False" True None 30 "example_evaluator PyNone" "[]" "Some ''int8''"]
  note d3 = csv_file_name_derivation [of "[]" "[]" "[]" 16 PyNone
      "[]" "Some False" True "Some ''int8''" 30 "example_evaluator PyNone" "[]" None]
  from d1 example_init [of PyNone] have a: "csv_file (example_evaluator PyNone) = csv_file_name [] None"
    and b: "csv_file_name [] None = ''MSE_similarity_evaluation_results.csv''"
    by simp_all
  from d2 have c: "csv_file_name ''sts'' None \<noteq> csv_file_name [] None"
    by auto
  from d3 have d: "csv_file_name [] (Some ''int8'') \<noteq> csv_file_name [] None"
    by auto
  from a b c d show ?thesis by simp
qed

section \<open>The log file\<close>

text \<open>
  Claim C6. A call whose metric computation completes with the four MSE values \<open>v\<close>,
  with an output path and persistence enabled, leaves the log files as they were except
  for the log file of the evaluator, to which it appends exactly one row: epoch, steps,
  then the cosine, Euclidean, Manhattan and dot-product MSE in this order. The header
  row (\<open>epoch, steps, MSE_cosine, MSE_euclidean, MSE_manhattan, MSE_dot\<close> for a
  constructed evaluator) is written before it only when the file does not exist yet.
  Two successive calls on a path with no file leave the header row followed by exactly
  the two data rows. (A call that raises before the four MSE values exist has no row to
  write.)
\<close>

theorem call_appends_one_row:
  assumes "compute_mse self m = Inr v" and "write_csv self"
  shows "snd (snd (call self m (Some dir) epoch steps fs)) =
           fs(os_path_join dir (csv_file self) \<mapsto>
               (case fs (os_path_join dir (csv_file self)) of
                  None \<Rightarrow> [map Text (csv_headers self)] | Some rows \<Rightarrow> rows)
               @ [data_row epoch steps v])
       \<and> data_row epoch steps v =
           [IntCell epoch, IntCell steps, FloatCell (eval_mse_cosine v),
            FloatCell (eval_mse_euclidean v), FloatCell (eval_mse_manhattan v),
            FloatCell (eval_mse_dot v)]
       \<and> (init s1 s2 sc bs sim nm spb wcsv prec level = Inr self \<longrightarrow>
           csv_headers self = [''epoch'', ''steps'', ''MSE_cosine'', ''MSE_euclidean'',
                               ''MSE_manhattan'', ''MSE_dot''])
       \<and> (fs (os_path_join dir (csv_file self)) = None \<and> compute_mse self m' = Inr v' \<longrightarrow>
           snd (snd (call self m' (Some dir) epoch' steps'
                       (snd (snd (call self m (Some dir) epoch steps fs)))))
             (os_path_join dir (csv_file self))
           = Some [map Text (csv_headers self), data_row epoch steps v,
                   data_row epoch' steps' v'])"
  using assms
  by (auto simp: call_fs write_results_Some data_row_def init_def)

theorem call_appends_one_row_witness:
  "snd (snd (call (example_evaluator PyNone) example_model (Some ''out'') 1 (- 1)
        (snd (snd (call (example_evaluator PyNone) example_model (Some ''out'') 0 (- 1)
           Map.empty)))))
     ''out/MSE_similarity_evaluation_results.csv''
   = Some [[Text ''epoch'', Text ''steps'', Text ''MSE_cosine'', Text ''MSE_euclidean'',
            Text ''MSE_manhattan'', Text ''MSE_dot''],
           [IntCell 0, IntCell (- 1), FloatCell (Num (1 / 8)), FloatCell (Num (5 / 2)),
            FloatCell (Num (17 / 2)), FloatCell (Num (9 / 2))],
           [IntCell 1, IntCell (- 1), FloatCell (Num (1 / 8)), FloatCell (Num (5 / 2)),
            FloatCell (Num (17 / 2)), FloatCell (Num (9 / 2))]]"
proof -
  have w: "write_csv (example_evaluator PyNone)"
    by (simp add: example_evaluator_def)
  have p: "os_path_join ''out'' (csv_file (example_evaluator PyNone))
             = ''out/MSE_similarity_evaluation_results.csv''"
    by (simp add: os_path_join_def example_evaluator_def)
  note r = call_appends_one_row [OF example_compute_mse [of PyNone] w,
      where dir = "''out''" and fs = Map.empty and m' = example_model and v' = example_mse
      and epoch = 0 and steps = "- 1" and epoch' = 1 and steps' = "- 1"]
  from r [THEN conjunct2, THEN conjunct2, THEN conjunct2] show ?thesis
    by (simp add: p example_compute_mse)
       (simp add: example_evaluator_def example_mse_def data_row_def)
qed

section \<open>Frame of a call\<close>

text \<open>
  Claim C8. The evaluator object after a call is the evaluator object before it: all
  its fields are unchanged, whatever the outcome of the call. Among the log files only
  the evaluator's own log file under the output path can differ after the call; with
  no output path, or with persistence disabled, no file changes.
\<close>

theorem call_leaves_evaluator_unchanged:
  "fst (snd (call self m output_path epoch steps fs)) = self
   \<and> (\<forall>q. (\<forall>dir. output_path = Some dir \<longrightarrow> q \<noteq> os_path_join dir (csv_file self)) \<longrightarrow>
          snd (snd (call self m output_path epoch steps fs)) q = fs q)
   \<and> (output_path = None \<or> \<not> write_csv self \<longrightarrow>
          snd (snd (call self m output_path epoch steps fs)) = fs)"
  by (auto simp: call_def write_results_def Let_def split: sum.splits option.splits)

theorem call_leaves_evaluator_unchanged_witness:
  "fst (snd (call (example_evaluator PyNone) example_model (Some ''out'') 0 (- 1) Map.empty))
     = example_evaluator PyNone
   \<and> snd (snd (call (example_evaluator PyNone) example_model (Some ''out'') 0 (- 1) Map.empty))
       ''other.csv'' = None
   \<and> snd (snd (call (example_evaluator PyNone) example_model None 0 (- 1) Map.empty))
       = Map.empty"
proof -
  note f = call_leaves_evaluator_unchanged [of "example_evaluator PyNone" example_model _ 0 "- 1"
      Map.empty]
  have p: "''other.csv'' \<noteq> os_path_join ''out'' (csv_file (example_evaluator PyNone))"
    by (simp add: os_path_join_def example_evaluator_def)
  from f [of "Some ''out''"] f [of None] p show ?thesis
    by auto
qed

section \<open>An unrecognised selector\<close>

text \<open>
  Claim C9. With a selector that is neither \<open>None\<close> nor a member of
  \<open>SimilarityFunction\<close>, a call whose metric computation completes raises ValueError
  only after the log row is written: under an output path with persistence enabled the
  log file ends with the row of this call, and the log files after the failed call
  differ from those before it.
\<close>

theorem unknown_selector_raises_after_row_is_written:
  assumes "compute_mse self m = Inr v" and "main_similarity self = Other x"
    and "write_csv self"
  shows "fst (call self m (Some dir) epoch steps fs) = Inl ValueError
       \<and> snd (snd (call self m (Some dir) epoch steps fs)) (os_path_join dir (csv_file self))
           = Some ((case fs (os_path_join dir (csv_file self)) of
                      None \<Rightarrow> [map Text (csv_headers self)] | Some rows \<Rightarrow> rows)
                   @ [data_row epoch steps v])
       \<and> snd (snd (call self m (Some dir) epoch steps fs)) \<noteq> fs"
proof -
  have e: "fst (call self m (Some dir) epoch steps fs) = Inl ValueError"
    using assms by (simp add: call_def select_score_def)
  have r: "snd (snd (call self m (Some dir) epoch steps fs)) (os_path_join dir (csv_file self))
           = Some ((case fs (os_path_join dir (csv_file self)) of
                      None \<Rightarrow> [map Text (csv_headers self)] | Some rows \<Rightarrow> rows)
                   @ [data_row epoch steps v])"
    using assms by (simp add: call_fs write_results_Some)
  have "snd (snd (call self m (Some dir) epoch steps fs)) \<noteq> fs"
  proof
    assume "snd (snd (call self m (Some dir) epoch steps fs)) = fs"
    with r show False
      by (auto split: option.splits)
  qed
  with e r show ?thesis by simp
qed

theorem unknown_selector_raises_after_row_is_written_witness:
  "fst (call (example_evaluator (Other ''cosine'')) example_model (Some ''out'') 0 (- 1) Map.empty)
     = Inl ValueError
   \<and> snd (snd (call (example_evaluator (Other ''cosine'')) example_model (Some ''out'') 0 (- 1)
        Map.empty)) ''out/MSE_similarity_evaluation_results.csv''
     = Some [[Text ''epoch'', Text ''steps'', Text ''MSE_cosine'', Text ''MSE_euclidean'',
            Text ''MSE_manhattan'', Text ''MSE_dot''],
           [IntCell 0, IntCell (- 1), FloatCell (Num (1 / 8)), FloatCell (Num (5 / 2)),
            FloatCell (Num (17 / 2)), FloatCell (Num (9 / 2))]]
   \<and> snd (snd (call (example_evaluator (Other ''cosine'')) example_model (Some ''out'') 0 (- 1)
        Map.empty)) \<noteq> Map.empty"
proof -
  have s: "main_similarity (example_evaluator (Other ''cosine'')) = Other ''cosine''"
    and w: "write_csv (example_evaluator (Other ''cosine''))"
    by (simp_all add: example_evaluator_def)
  have p: "os_path_join ''out'' (csv_file (example_evaluator (Other ''cosine'')))
             = ''out/MSE_similarity_evaluation_results.csv''"
    by (simp add: os_path_join_def example_evaluator_def)
  note r = unknown_selector_raises_after_row_is_written [OF example_compute_mse s w,
      where dir = "''out''" and epoch = 0 and steps = "- 1" and fs = Map.empty]
  from r show ?thesis
    by (simp add: p) (simp add: example_evaluator_def example_mse_def data_row_def)
qed

section \<open>Packed embeddings\<close>

text \<open>
  Claim C4. Let the model answer the two requests of a call with the arrays \<open>e1\<close>
  and \<open>e2\<close>. Under the precision \<open>binary\<close>, on packed signed bytes, every byte
  \<open>b\<close> is first replaced by \<open>b + 128\<close> read as an unsigned 8-bit value (the number
  \<open>sint b + 128\<close>) and then unpacked; under \<open>ubinary\<close>, on packed unsigned bytes,
  every byte is unpacked as it is; under any other precision the arrays are left as
  they are. Unpacking turns a byte into its 8 bits, each 0 or 1, most significant
  first, so that a row of \<open>n\<close> bytes becomes a row of \<open>8 * n\<close> values. The four
  metrics, and with them the MSE values, are computed from the unpacked arrays.
\<close>

theorem packed_embeddings_are_unpacked:
  assumes "m (encode_request_for self (sentences1 self)) = Inr e1"
    and "m (encode_request_for self (sentences2 self)) = Inr e2"
  shows "(precision self = Some ''binary'' \<and> e1 = Int8Arr a1 \<and> e2 = Int8Arr a2 \<longrightarrow>
            embeddings self m =
              Inr (UInt8Arr (map (\<lambda>row. concat (map (\<lambda>b. unpack_byte (b + 128)) row)) a1),
                   UInt8Arr (map (\<lambda>row. concat (map (\<lambda>b. unpack_byte (b + 128)) row)) a2)))
       \<and> (precision self = Some ''ubinary'' \<and> e1 = UInt8Arr a1 \<and> e2 = UInt8Arr a2 \<longrightarrow>
            embeddings self m =
              Inr (UInt8Arr (map (\<lambda>row. concat (map unpack_byte row)) a1),
                   UInt8Arr (map (\<lambda>row. concat (map unpack_byte row)) a2)))
       \<and> (precision self \<noteq> Some ''binary'' \<and> precision self \<noteq> Some ''ubinary'' \<longrightarrow>
            embeddings self m = Inr (e1, e2))
       \<and> (embeddings self m = Inr (u1, u2) \<longrightarrow>
            compute_mse self m =
              bind_result (similarity_metrics u1 u2) (\<lambda>ms. eval_mse ms (scores self)))
       \<and> unat (b + 128) = nat (sint b + 128)
       \<and> length (unpack_byte b) = 8
       \<and> set (unpack_byte b) \<subseteq> {0, 1}
       \<and> (\<Sum>i<8. unat (unpack_byte b ! i) * 2 ^ (7 - i)) = unat b
       \<and> length (concat (map unpack_byte row)) = 8 * length row"
  using assms
  by (simp add: embeddings_binary embeddings_ubinary compute_mse_embeddings unat_add_128
      length_unpack_byte set_unpack_byte unpack_byte_value length_concat_unpack)
     (simp add: embeddings_def)

theorem packed_embeddings_are_unpacked_witness:
  "embeddings binary_evaluator binary_model =
     Inr (UInt8Arr [[0, 0, 0, 0, 0, 1, 0, 1], [0, 1, 1, 1, 1, 1, 1, 1]],
          UInt8Arr [[0, 0, 0, 0, 0, 0, 0, 0], [0, 0, 0, 0, 0, 1, 0, 1]])
   \<and> sint (133 :: 8 word) = - 123 \<and> unat (133 + 128 :: 8 word) = 5
   \<and> compute_mse binary_evaluator binary_model =
       bind_result
         (similarity_metrics (UInt8Arr [[0, 0, 0, 0, 0, 1, 0, 1], [0, 1, 1, 1, 1, 1, 1, 1]])
            (UInt8Arr [[0, 0, 0, 0, 0, 0, 0, 0], [0, 0, 0, 0, 0, 1, 0, 1]]))
         (\<lambda>ms. eval_mse ms [1, 0])"
proof -
  have r1: "binary_model (encode_request_for binary_evaluator (sentences1 binary_evaluator))
              = Inr (Int8Arr [[133], [255]])"
    and r2: "binary_model (encode_request_for binary_evaluator (sentences2 binary_evaluator))
              = Inr (Int8Arr [[128], [133]])"
    by (simp_all add: binary_model_def binary_evaluator_def encode_request_for_def)
  have p: "precision binary_evaluator = Some ''binary''"
    and sc: "scores binary_evaluator = [1, 0]"
    by (simp_all add: binary_evaluator_def)
  have u: "unpack_byte 261 = [0, 0, 0, 0, 0, 1, 0, 1]"
    "unpack_byte 256 = [0, 0, 0, 0, 0, 0, 0, 0]"
    "unpack_byte 383 = [0, 1, 1, 1, 1, 1, 1, 1]"
    by (simp_all add: unpack_byte_def upt_conv_Cons)
  note t = packed_embeddings_are_unpacked [OF r1 r2, where ?a1.0 = "[[133], [255]]"
      and ?a2.0 = "[[128], [133]]" and b = 133
      and ?u1.0 = "UInt8Arr [[0, 0, 0, 0, 0, 1, 0, 1], [0, 1, 1, 1, 1, 1, 1, 1]]"
      and ?u2.0 = "UInt8Arr [[0, 0, 0, 0, 0, 0, 0, 0], [0, 0, 0, 0, 0, 1, 0, 1]]"]
  from t have e: "embeddings binary_evaluator binary_model =
     Inr (UInt8Arr [[0, 0, 0, 0, 0, 1, 0, 1], [0, 1, 1, 1, 1, 1, 1, 1]],
          UInt8Arr [[0, 0, 0, 0, 0, 0, 0, 0], [0, 0, 0, 0, 0, 1, 0, 1]])"
    by (simp add: p u)
  from t e have c: "compute_mse binary_evaluator binary_model =
       bind_result
         (similarity_metrics (UInt8Arr [[0, 0, 0, 0, 0, 1, 0, 1], [0, 1, 1, 1, 1, 1, 1, 1]])
            (UInt8Arr [[0, 0, 0, 0, 0, 0, 0, 0], [0, 0, 0, 0, 0, 1, 0, 1]]))
         (\<lambda>ms. eval_mse ms [1, 0])"
    by (simp add: sc)
  from t have "unat (133 + 128 :: 8 word) = 5" by simp
  with e c show ?thesis by simp
qed

section \<open>The four MSE values\<close>

text \<open>
  Claim C2. Let the embeddings of a call be \<open>e1\<close> and \<open>e2\<close>, with as many rows as
  the dataset has pairs, and let the four metric arrays \<open>ms\<close> be computed from them
  (which needs at least one row, so the dataset has \<open>N \<ge> 1\<close> pairs). Then the metric
  computation completes, each of the four MSE values is the mean over the indices
  \<open>i < N\<close> of \<open>(metric[i] - scores[i])\<^sup>2\<close> for its metric array, and each of the
  four is at least 0.
\<close>

theorem mse_values_are_means:
  assumes "embeddings self m = Inr (e1, e2)"
    and "similarity_metrics e1 e2 = Inr ms"
    and "num_rows e1 = length (scores self)"
  shows "compute_mse self m =
           Inr \<lparr> eval_mse_cosine = Num (mean_squared_error (cosine_scores ms) (scores self)),
                 eval_mse_manhattan =
                   Num (mean_squared_error (manhattan_distances ms) (scores self)),
                 eval_mse_euclidean =
                   Num (mean_squared_error (euclidean_distances ms) (scores self)),
                 eval_mse_dot = Num (mean_squared_error (dot_products ms) (scores self)) \<rparr>
       \<and> 1 \<le> length (scores self)
       \<and> 0 \<le> mean_squared_error (cosine_scores ms) (scores self)
       \<and> 0 \<le> mean_squared_error (manhattan_distances ms) (scores self)
       \<and> 0 \<le> mean_squared_error (euclidean_distances ms) (scores self)
       \<and> 0 \<le> mean_squared_error (dot_products ms) (scores self)"
proof -
  note l = similarity_metrics_lengths [OF assms(2)]
  from l(1) assms(3) have ne: "scores self \<noteq> []"
    by (auto simp: num_rows_def)
  from assms(3) l have len:
    "length (cosine_scores ms) = length (scores self)"
    "length (manhattan_distances ms) = length (scores self)"
    "length (euclidean_distances ms) = length (scores self)"
    "length (dot_products ms) = length (scores self)"
    by (simp_all add: num_rows_def)
  have "compute_mse self m = eval_mse ms (scores self)"
    using assms(1,2) by (simp add: compute_mse_def)
  also have "\<dots> =
           Inr \<lparr> eval_mse_cosine = Num (mean_squared_error (cosine_scores ms) (scores self)),
                 eval_mse_manhattan =
                   Num (mean_squared_error (manhattan_distances ms) (scores self)),
                 eval_mse_euclidean =
                   Num (mean_squared_error (euclidean_distances ms) (scores self)),
                 eval_mse_dot = Num (mean_squared_error (dot_products ms) (scores self)) \<rparr>"
    by (simp add: eval_mse_def mse_equal_lengths [OF len(1) ne] mse_equal_lengths [OF len(2) ne]
        mse_equal_lengths [OF len(3) ne] mse_equal_lengths [OF len(4) ne]
        mean_squared_error_def)
  finally show ?thesis
    using ne by (simp add: mean_squared_error_nonneg Suc_le_eq)
qed


theorem mse_values_are_means_witness:
  "compute_mse (example_evaluator PyNone) example_model =
     Inr \<lparr> eval_mse_cosine = Num (1 / 8), eval_mse_manhattan = Num (17 / 2),
           eval_mse_euclidean = Num (5 / 2), eval_mse_dot = Num (9 / 2) \<rparr>
   \<and> mean_squared_error [1, 1 / 2] [1, 0] = 1 / 8
   \<and> 0 \<le> mean_squared_error [1, 1 / 2] [1, 0]"
proof -
  have n: "num_rows (FloatArr [[2, 0, 0, 0], [1, 1, 1, 1]])
             = length (scores (example_evaluator PyNone))"
    by (simp add: num_rows_def example_evaluator_def)
  have two: "{..<2::nat} = {0, 1}" by auto
  have v: "mean_squared_error [1, 1 / 2] [1, 0] = 1 / 8"
    "mean_squared_error [0, - 4] [1, 0] = 17 / 2"
    "mean_squared_error [0, - 2] [1, 0] = 5 / 2"
    "mean_squared_error [4, 0] [1, 0] = 9 / 2"
    by (simp_all add: mean_squared_error_def two power2_eq_square)
  have sc: "scores (example_evaluator PyNone) = [1, 0]"
    by (simp add: example_evaluator_def)
  from mse_values_are_means [OF example_embeddings example_metrics n]
  show ?thesis
    by (simp add: sc v)
qed

section \<open>The dot product of 8-bit embeddings\<close>

text \<open>
  Claim C3 says that the fourth metric is the dot product of the two embeddings. The
  source calls \<^verbatim>\<open>np.dot\<close> on the rows as the model returned them; on the 8-bit
  integer arrays of the quantised precisions the result is reduced modulo \<open>2 ^ 8\<close>,
  while the three paired distances work on the values as floats. With the precision
  \<open>uint8\<close> and the embedding \<open>[16]\<close> for both sentences of the only pair, the
  embeddings are identical (cosine score 1, both distances 0), the dot product is 256,
  and the source computes 0; the dot-product MSE against the gold score 1 is then 1.
\<close>

theorem dot_product_wraps_on_uint8:
  "init [''a''] [''a''] [1] 16 PyNone [] (Some False) True (Some ''uint8'') 30
     = Inr uint8_evaluator
   \<and> embeddings uint8_evaluator uint8_model = Inr (UInt8Arr [[16]], UInt8Arr [[16]])
   \<and> similarity_metrics (UInt8Arr [[16]]) (UInt8Arr [[16]]) =
       Inr \<lparr> cosine_scores = [1], manhattan_distances = [0], euclidean_distances = [0],
             dot_products = [0] \<rparr>
   \<and> dot_real (map (\<lambda>b. real (unat b)) [16 :: 8 word]) (map (\<lambda>b. real (unat b)) [16 :: 8 word])
       = 256
   \<and> compute_mse uint8_evaluator uint8_model =
       Inr \<lparr> eval_mse_cosine = Num 0, eval_mse_manhattan = Num 1,
             eval_mse_euclidean = Num 1, eval_mse_dot = Num 1 \<rparr>"
proof -
  have e: "embeddings uint8_evaluator uint8_model = Inr (UInt8Arr [[16]], UInt8Arr [[16]])"
    by (simp add: embeddings_def uint8_evaluator_def uint8_model_def encode_request_for_def)
  have s: "similarity_metrics (UInt8Arr [[16]]) (UInt8Arr [[16]]) =
       Inr \<lparr> cosine_scores = [1], manhattan_distances = [0], euclidean_distances = [0],
             dot_products = [0] \<rparr>"
    by (simp add: similarity_metrics_def paired_cosine_distances_def
      paired_manhattan_distances_def paired_euclidean_distances_def check_paired_arrays_def
      cosine_distance_def manhattan_distance_def euclidean_distance_def normalize_def
      row_norm_def dot_word_def)
  have c: "compute_mse uint8_evaluator uint8_model =
       Inr \<lparr> eval_mse_cosine = Num 0, eval_mse_manhattan = Num 1,
             eval_mse_euclidean = Num 1, eval_mse_dot = Num 1 \<rparr>"
    by (simp add: compute_mse_def e s)
       (simp add: eval_mse_def mse_def np_subtract_def np_mean_def uint8_evaluator_def)
  have i: "init [''a''] [''a''] [1] 16 PyNone [] (Some False) True (Some ''uint8'') 30
             = Inr uint8_evaluator"
    by (simp add: init_def uint8_evaluator_def csv_file_name_def)
  from i e s c show ?thesis
    by (simp add: dot_real_def)
qed

section \<open>The empty dataset\<close>

text \<open>
  Claim C10, as stated, fails: the constructor accepts three empty sequences, but a call
  on this evaluator, with a model that answers with one row per sentence and therefore
  with an array of no rows, raises ValueError: the paired cosine distances reject an
  array without rows (sklearn: a minimum of 1 sample is required), before any mean is
  taken. No score is returned, NaN or other.
\<close>

theorem empty_dataset_call_raises:
  "init [] [] [] 16 PyNone [] (Some False) True None 30 = Inr empty_evaluator
   \<and> row_per_sentence_model (encode_request_for empty_evaluator []) = Inr (FloatArr [])
   \<and> call empty_evaluator row_per_sentence_model None (- 1) (- 1) Map.empty
       = (Inl ValueError, empty_evaluator, Map.empty)"
  by (simp add: init_def empty_evaluator_def csv_file_name_def row_per_sentence_model_def
      encode_request_for_def call_def compute_mse_def embeddings_def similarity_metrics_def
      paired_cosine_distances_def check_paired_arrays_def)

text \<open>
  Claim C10, amended. For the empty dataset the constructor succeeds with no validation
  error. An evaluation call on an evaluator without sentences, with a model that
  answers with no rows for no sentences, returns no score: it raises an error and
  leaves the evaluator and the log files as they were; where the embeddings are
  obtained, the error is the ValueError of the paired distances.
\<close>

theorem empty_dataset_no_score:
  "(\<exists>ev. init [] [] [] bs sim nm spb wcsv prec level = Inr ev
         \<and> sentences1 ev = [] \<and> sentences2 ev = [] \<and> scores ev = [])
   \<and> (sentences1 self = [] \<and>
       (\<forall>a. m (encode_request_for self []) = Inr a \<longrightarrow> num_rows a = 0) \<longrightarrow>
       (\<exists>e. call self m output_path epoch steps fs = (Inl e, self, fs)))
   \<and> (sentences1 self = [] \<and>
       (\<forall>a. m (encode_request_for self []) = Inr a \<longrightarrow> num_rows a = 0) \<and>
       embeddings self m = Inr (u1, u2) \<longrightarrow>
       call self m output_path epoch steps fs = (Inl ValueError, self, fs))"
proof -
  have init: "\<exists>ev. init [] [] [] bs sim nm spb wcsv prec level = Inr ev
         \<and> sentences1 ev = [] \<and> sentences2 ev = [] \<and> scores ev = []"
    by (simp add: init_def)
  have raises: "call self m output_path epoch steps fs = (Inl ValueError, self, fs)"
    if s: "sentences1 self = []"
      and z: "\<forall>a. m (encode_request_for self []) = Inr a \<longrightarrow> num_rows a = 0"
      and e: "embeddings self m = Inr (u1, u2)" for u1 u2
  proof -
    from e obtain e1 where r: "m (encode_request_for self (sentences1 self)) = Inr e1"
      by (cases "m (encode_request_for self (sentences1 self))")
         (simp_all add: embeddings_def)
    with s z have "num_rows e1 = 0" by simp
    with embeddings_num_rows [OF e r] have "num_rows u1 = 0" by simp
    then have "similarity_metrics u1 u2 = Inl ValueError"
      by (rule similarity_metrics_no_rows)
    with e show ?thesis
      by (simp add: call_def compute_mse_def)
  qed
  have some: "\<exists>e. call self m output_path epoch steps fs = (Inl e, self, fs)"
    if s: "sentences1 self = []"
      and z: "\<forall>a. m (encode_request_for self []) = Inr a \<longrightarrow> num_rows a = 0"
  proof (cases "embeddings self m")
    case (Inl e)
    then show ?thesis by (simp add: call_def compute_mse_def)
  next
    case (Inr p)
    then obtain u1 u2 where "embeddings self m = Inr (u1, u2)" by (cases p) simp
    from raises [OF s z this] show ?thesis by simp
  qed
  from init raises some show ?thesis by blast
qed

theorem empty_dataset_no_score_witness:
  "(\<exists>ev. init [] [] [] 16 PyNone [] (Some False) True None 30 = Inr ev
         \<and> sentences1 ev = [] \<and> sentences2 ev = [] \<and> scores ev = [])
   \<and> call empty_evaluator row_per_sentence_model (Some ''out'') 0 0 Map.empty
       = (Inl ValueError, empty_evaluator, Map.empty)"
proof -
  have s: "sentences1 empty_evaluator = []"
    by (simp add: empty_evaluator_def)
  have z: "\<forall>a. row_per_sentence_model (encode_request_for empty_evaluator []) = Inr a
              \<longrightarrow> num_rows a = 0"
    by (simp add: row_per_sentence_model_def encode_request_for_def num_rows_def)
  have e: "embeddings empty_evaluator row_per_sentence_model = Inr (FloatArr [], FloatArr [])"
    by (simp add: embeddings_def empty_evaluator_def row_per_sentence_model_def
        encode_request_for_def)
  from empty_dataset_no_score [of 16 PyNone "[]" "Some False" True None 30 empty_evaluator
      row_per_sentence_model "Some ''out''" 0 0 Map.empty "FloatArr []" "FloatArr []"] s z e
  show ?thesis by blast
qed

end
